theory Spec2Isabelle
  imports
    Main
    "HOL-Library.AList"
    "HOL-Library.Multiset"
    "HOL-Library.Char_ord"
    "HOL-Library.List_Lexorder"
    "HOL-Library.Product_Lexorder"
begin

section \<open>Values, documents and exceptions\<close>

text \<open>
  The portfolio backend (main.py, schemas.py) is a set of request handlers over three
  collections of a document store. A document is a Python dict; it is kept here as an
  association list, whose update (\<open>AList.update\<close>) replaces the value of a key that is
  present in place and appends a new key at the end, as assignment to a dict key does.

  Time is counted in whole seconds since the epoch, UTC; \<open>now\<close> is the clock reading
  \<open>datetime.now(timezone.utc)\<close> a handler takes, passed in as an argument. A character
  of a Python string is one \<open>char\<close>.
\<close>

datatype pyvalue =
    VNone
  | VBool bool
  | VInt int
  | VStr string
  | VUrl string
  | VStrList "string list"
  | VDatetime int
  | VObjectId string
  | VIsoformat int
  | VStrOf pyvalue

type_synonym doc = "(string \<times> pyvalue) list"

text \<open>
  The exceptions the handlers raise or let through. \<open>HTTPException\<close> carries the status
  code and the detail text. The others come from the libraries: the three decode errors of
  \<open>jwt.decode\<close>, \<open>InvalidId\<close> of \<open>bson.ObjectId\<close>, the \<open>ValueError\<close> of \<open>PyObjectId.validate\<close>, and a
  failure of the connection to the store.
\<close>

datatype exc =
    HTTPException nat string
  | ExpiredSignatureError
  | InvalidSignatureError
  | DecodeError
  | InvalidId string
  | ValueError string
  | ConnectionFailure string

text \<open>
  What the caller sees: the framework answers an \<open>HTTPException\<close> with its status code and
  any other exception that leaves a handler with 500 (internal server error).
\<close>

fun response_status :: "exc \<Rightarrow> nat" where
  "response_status (HTTPException code detail) = code"
| "response_status e = 500"

text \<open>\<open>str(e)\<close> of an exception: its message.\<close>

fun exc_str :: "exc \<Rightarrow> string" where
  "exc_str (HTTPException code detail) = detail"
| "exc_str ExpiredSignatureError = ''Signature has expired''"
| "exc_str InvalidSignatureError = ''Signature verification failed''"
| "exc_str DecodeError = ''Not enough segments''"
| "exc_str (InvalidId msg) = msg"
| "exc_str (ValueError msg) = msg"
| "exc_str (ConnectionFailure msg) = msg"

section \<open>Tokens\<close>

text \<open>
  A bearer token is a string. What matters of it is whether it is a well-formed HS256 token,
  and then which payload it carries and under which key it was signed: \<open>JWT payload key\<close>.
  Any other string is \<open>Garbage\<close>. Signatures are ideal: a token verifies under a key exactly
  when it was signed with that key.
\<close>

datatype token = Garbage string | JWT doc string

text \<open>
  \<open>jwt.encode\<close> writes a datetime claim as its integer timestamp; \<open>jwt.decode\<close> checks the
  signature first, then the expiry claim when there is one.
\<close>

fun jwt_claim :: "string \<times> pyvalue \<Rightarrow> string \<times> pyvalue" where
  "jwt_claim (k, VDatetime t) = (k, VInt t)"
| "jwt_claim (k, v) = (k, v)"

definition jwt_encode :: "doc \<Rightarrow> string \<Rightarrow> token" where
  "jwt_encode payload key = JWT (map jwt_claim payload) key"

fun jwt_decode :: "int \<Rightarrow> token \<Rightarrow> string \<Rightarrow> exc + doc" where
  "jwt_decode now (Garbage s) key = Inl DecodeError"
| "jwt_decode now (JWT payload signed_with) key =
     (if signed_with \<noteq> key then Inl InvalidSignatureError
      else (case map_of payload ''exp'' of
              None \<Rightarrow> Inr payload
            | Some (VInt e) \<Rightarrow> if e \<le> now then Inl ExpiredSignatureError else Inr payload
            | Some other \<Rightarrow> Inl DecodeError))"

definition TOKEN_EXPIRE_MINUTES :: int where
  "TOKEN_EXPIRE_MINUTES = 60 * 8"

definition timedelta_minutes :: "int \<Rightarrow> int" where
  "timedelta_minutes m = m * 60"

definition create_token :: "string \<Rightarrow> int \<Rightarrow> doc \<Rightarrow> token" where
  "create_token JWT_SECRET now payload =
     (let to_encode = AList.update ''exp''
            (VDatetime (now + timedelta_minutes TOKEN_EXPIRE_MINUTES)) payload
      in jwt_encode to_encode JWT_SECRET)"

text \<open>
  \<open>require_admin\<close>: the body of the \<open>try\<close> first, then the two handlers. The 403 is raised
  inside the \<open>try\<close>, and \<open>HTTPException\<close> is an \<open>Exception\<close>, so the second handler takes it.
\<close>

definition require_admin_try :: "string \<Rightarrow> int \<Rightarrow> token \<Rightarrow> exc + doc" where
  "require_admin_try JWT_SECRET now tok =
     (case jwt_decode now tok JWT_SECRET of
        Inl e \<Rightarrow> Inl e
      | Inr data \<Rightarrow>
          if map_of data ''role'' \<noteq> Some (VStr ''admin'')
          then Inl (HTTPException 403 ''Not authorized'')
          else Inr data)"

definition require_admin :: "string \<Rightarrow> int \<Rightarrow> token \<Rightarrow> exc + doc" where
  "require_admin JWT_SECRET now tok =
     (case require_admin_try JWT_SECRET now tok of
        Inr data \<Rightarrow> Inr data
      | Inl ExpiredSignatureError \<Rightarrow> Inl (HTTPException 401 ''Token expired'')
      | Inl e \<Rightarrow> Inl (HTTPException 401 ''Invalid token''))"

section \<open>Login\<close>

record TokenResponse =
  access_token :: token
  token_type :: string

definition login :: "string \<Rightarrow> string \<Rightarrow> int \<Rightarrow> string \<Rightarrow> exc + TokenResponse" where
  "login ADMIN_PASSWORD JWT_SECRET now password =
     (if password \<noteq> ADMIN_PASSWORD
      then Inl (HTTPException 401 ''Invalid credentials'')
      else (let tok = create_token JWT_SECRET now [(''role'', VStr ''admin'')]
            in Inr \<lparr>access_token = tok, token_type = ''bearer''\<rparr>))"

section \<open>Entity schemas\<close>

text \<open>
  The three request bodies of schemas.py, after validation. Both timestamps are optional
  fields of every schema, so a client may send them. A URL field holds the text of a
  well-formed URL. \<open>model_dump\<close> gives the dict of all fields in declaration order.
\<close>

record Project =
  p_title :: string
  p_slug :: string
  p_summary :: string
  p_description :: "string option"
  p_tech :: "string list"
  p_role :: "string option"
  p_timeline :: "string option"
  p_logo_url :: "string option"
  p_demo_url :: "string option"
  p_repo_url :: "string option"
  p_tags :: "string list"
  p_featured :: bool
  p_created_at :: "int option"
  p_updated_at :: "int option"

record BlogPost =
  b_title :: string
  b_slug :: string
  b_excerpt :: string
  b_content :: "string option"
  b_tags :: "string list"
  b_read_time :: int
  b_cover_url :: "string option"
  b_created_at :: "int option"
  b_updated_at :: "int option"

record TechItem =
  t_name :: string
  t_category :: "string option"
  t_level :: "string option"
  t_icon :: "string option"
  t_created_at :: "int option"
  t_updated_at :: "int option"

fun opt_str :: "string option \<Rightarrow> pyvalue" where
  "opt_str None = VNone"
| "opt_str (Some s) = VStr s"

fun opt_url :: "string option \<Rightarrow> pyvalue" where
  "opt_url None = VNone"
| "opt_url (Some u) = VUrl u"

fun opt_datetime :: "int option \<Rightarrow> pyvalue" where
  "opt_datetime None = VNone"
| "opt_datetime (Some t) = VDatetime t"

definition project_dump :: "Project \<Rightarrow> doc" where
  "project_dump d =
     [(''title'', VStr (p_title d)),
      (''slug'', VStr (p_slug d)),
      (''summary'', VStr (p_summary d)),
      (''description'', opt_str (p_description d)),
      (''tech'', VStrList (p_tech d)),
      (''role'', opt_str (p_role d)),
      (''timeline'', opt_str (p_timeline d)),
      (''logo_url'', opt_url (p_logo_url d)),
      (''demo_url'', opt_url (p_demo_url d)),
      (''repo_url'', opt_url (p_repo_url d)),
      (''tags'', VStrList (p_tags d)),
      (''featured'', VBool (p_featured d)),
      (''created_at'', opt_datetime (p_created_at d)),
      (''updated_at'', opt_datetime (p_updated_at d))]"

definition blogpost_dump :: "BlogPost \<Rightarrow> doc" where
  "blogpost_dump d =
     [(''title'', VStr (b_title d)),
      (''slug'', VStr (b_slug d)),
      (''excerpt'', VStr (b_excerpt d)),
      (''content'', opt_str (b_content d)),
      (''tags'', VStrList (b_tags d)),
      (''read_time'', VInt (b_read_time d)),
      (''cover_url'', opt_url (b_cover_url d)),
      (''created_at'', opt_datetime (b_created_at d)),
      (''updated_at'', opt_datetime (b_updated_at d))]"

definition techitem_dump :: "TechItem \<Rightarrow> doc" where
  "techitem_dump d =
     [(''name'', VStr (t_name d)),
      (''category'', opt_str (t_category d)),
      (''level'', opt_str (t_level d)),
      (''icon'', opt_str (t_icon d)),
      (''created_at'', opt_datetime (t_created_at d)),
      (''updated_at'', opt_datetime (t_updated_at d))]"

section \<open>Identifiers\<close>

text \<open>
  \<open>ObjectId(id)\<close> of a string: twelve bytes written as 24 hexadecimal digits, or
  \<open>InvalidId\<close>. An identifier is kept as its lower-case hexadecimal text, which is also
  what \<open>str\<close> of it gives.
\<close>

definition is_hex :: "char \<Rightarrow> bool" where
  "is_hex c = (c \<in> set ''0123456789abcdefABCDEF'')"

definition hex_lower :: "char \<Rightarrow> char" where
  "hex_lower c =
     (if c = CHR ''A'' then CHR ''a'' else if c = CHR ''B'' then CHR ''b''
      else if c = CHR ''C'' then CHR ''c'' else if c = CHR ''D'' then CHR ''d''
      else if c = CHR ''E'' then CHR ''e'' else if c = CHR ''F'' then CHR ''f'' else c)"

definition ObjectId_is_valid :: "string \<Rightarrow> bool" where
  "ObjectId_is_valid s = (length s = 24 \<and> list_all is_hex s)"

definition ObjectId :: "string \<Rightarrow> exc + string" where
  "ObjectId s =
     (if ObjectId_is_valid s then Inr (map hex_lower s)
      else Inl (InvalidId (s @ '' is not a valid ObjectId'')))"

text \<open>
  \<open>PyObjectId.validate\<close> on a string: the validator main.py declares for identifiers. No
  route uses it; the handlers take the path parameter as a plain string and call
  \<open>ObjectId\<close> on it themselves.
\<close>

definition PyObjectId_validate :: "string \<Rightarrow> exc + string" where
  "PyObjectId_validate v =
     (if \<not> ObjectId_is_valid v then Inl (ValueError ''Invalid ObjectId'') else ObjectId v)"

text \<open>
  \<open>str(v)\<close>: the text of an identifier or a string; for any other value the text is kept
  symbolic (\<open>VStrOf v\<close>), as is the ISO-8601 text of a datetime (\<open>VIsoformat t\<close>).
\<close>

fun py_str :: "pyvalue \<Rightarrow> pyvalue" where
  "py_str (VObjectId h) = VStr h"
| "py_str (VStr s) = VStr s"
| "py_str v = VStrOf v"

fun isoformat_value :: "pyvalue \<Rightarrow> pyvalue" where
  "isoformat_value (VDatetime t) = VIsoformat t"
| "isoformat_value v = v"

text \<open>\<open>serialize_doc\<close>: the identifier moves from \<open>_id\<close> to \<open>id\<close> as text, datetimes become text.\<close>

definition serialize_doc :: "doc \<Rightarrow> doc" where
  "serialize_doc d =
     (if d = [] then d
      else
        (let popped = AList.delete ''_id'' d;
             with_id = (case map_of d ''_id'' of
                          None \<Rightarrow> popped
                        | Some VNone \<Rightarrow> popped
                        | Some v \<Rightarrow> AList.update ''id'' (py_str v) popped)
         in map (\<lambda>(k, v). (k, isoformat_value v)) with_id))"

section \<open>The document store\<close>

text \<open>
  Modelled from the spec: the store adapter (module \<open>database\<close> and the driver behind it are
  not among the sources). A store holds named collections, each a sequence of documents; a
  name without an entry is an empty collection. Section 4.2 of the specification gives the
  operations: find with an optional sort (a field and a direction) and an optional limit
  that truncates after the sort, find-one, insert returning the assigned identifier, update
  replacing only the fields of the patch and telling whether a document matched, delete
  telling whether one matched. An operation on a store that cannot be reached raises, and
  the failure leaves the handler (sections 5 and 7). \<open>db\<close> is \<open>None\<close> when no store was
  configured. Every definition of this section belongs to this model; the handlers further
  down are those of main.py.
\<close>

record store =
  colls :: "(string \<times> doc list) list"
  conn_error :: "string option"

type_synonym handle = "store \<times> string"

datatype direction = ASCENDING | DESCENDING

record cursor =
  cur_handle :: handle
  cur_sort :: "(string \<times> direction) option"
  cur_limit :: int

definition coll_docs :: "store \<Rightarrow> string \<Rightarrow> doc list" where
  "coll_docs s name = (case map_of (colls s) name of None \<Rightarrow> [] | Some ds \<Rightarrow> ds)"

definition reach :: "store \<Rightarrow> 'a \<Rightarrow> exc + 'a" where
  "reach s result =
     (case conn_error s of Some msg \<Rightarrow> Inl (ConnectionFailure msg) | None \<Rightarrow> Inr result)"

text \<open>
  The order of a sort: values of one kind are compared by their content, values of
  different kinds by kind, and a document without the field sorts as if the field were null.
\<close>

fun bson_key :: "pyvalue option \<Rightarrow> nat \<times> int \<times> string" where
  "bson_key None = (1, 0, [])"
| "bson_key (Some VNone) = (1, 0, [])"
| "bson_key (Some (VInt i)) = (2, i, [])"
| "bson_key (Some (VStr s)) = (3, 0, s)"
| "bson_key (Some (VUrl s)) = (3, 0, s)"
| "bson_key (Some (VIsoformat t)) = (3, t, [])"
| "bson_key (Some (VStrOf v)) = (3, 0, [])"
| "bson_key (Some (VStrList xs)) = (5, 0, [])"
| "bson_key (Some (VObjectId h)) = (7, 0, h)"
| "bson_key (Some (VBool b)) = (8, (if b then 1 else 0), [])"
| "bson_key (Some (VDatetime t)) = (9, t, [])"

definition field_key :: "string \<Rightarrow> doc \<Rightarrow> nat \<times> int \<times> string" where
  "field_key field d = bson_key (map_of d field)"

definition sort_docs :: "(string \<times> direction) option \<Rightarrow> doc list \<Rightarrow> doc list" where
  "sort_docs spec ds =
     (case spec of
        None \<Rightarrow> ds
      | Some (field, ASCENDING) \<Rightarrow> sort_key (field_key field) ds
      | Some (field, DESCENDING) \<Rightarrow> rev (sort_key (field_key field) ds))"

text \<open>A limit of 0 is no limit; the driver takes a negative limit by its size.\<close>

definition limit_docs :: "int \<Rightarrow> doc list \<Rightarrow> doc list" where
  "limit_docs n ds = (if n = 0 then ds else take (nat \<bar>n\<bar>) ds)"

definition find_all :: "handle \<Rightarrow> cursor" where
  "find_all h = \<lparr>cur_handle = h, cur_sort = None, cur_limit = 0\<rparr>"

definition sort_cursor :: "string \<Rightarrow> direction \<Rightarrow> cursor \<Rightarrow> cursor" where
  "sort_cursor field dir cur = cur\<lparr>cur_sort := Some (field, dir)\<rparr>"

definition limit_cursor :: "int \<Rightarrow> cursor \<Rightarrow> cursor" where
  "limit_cursor n cur = cur\<lparr>cur_limit := n\<rparr>"

text \<open>Iterating a cursor runs the query: all documents, sorted, then truncated.\<close>

definition fetch :: "cursor \<Rightarrow> exc + doc list" where
  "fetch cur =
     (case cur_handle cur of
        (s, name) \<Rightarrow>
          reach s (limit_docs (cur_limit cur) (sort_docs (cur_sort cur) (coll_docs s name))))"

definition find_one :: "handle \<Rightarrow> string \<Rightarrow> pyvalue \<Rightarrow> exc + doc option" where
  "find_one h field v =
     (case h of
        (s, name) \<Rightarrow> reach s (find (\<lambda>d. map_of d field = Some v) (coll_docs s name)))"

definition insert_one :: "handle \<Rightarrow> doc \<Rightarrow> string \<Rightarrow> exc + string \<times> store" where
  "insert_one h d new_id =
     (case h of
        (s, name) \<Rightarrow>
          reach s
            (new_id,
             s\<lparr>colls := AList.update name
                   (coll_docs s name @ [AList.update ''_id'' (VObjectId new_id) d]) (colls s)\<rparr>))"

definition has_id :: "string \<Rightarrow> doc \<Rightarrow> bool" where
  "has_id oid d = (map_of d ''_id'' = Some (VObjectId oid))"

text \<open>\<open>$set\<close>: every field of the patch is written into the document, in the patch's order.\<close>

definition set_fields :: "doc \<Rightarrow> doc \<Rightarrow> doc" where
  "set_fields patch d = fold (\<lambda>(k, v) acc. AList.update k v acc) patch d"

fun update_first :: "string \<Rightarrow> doc \<Rightarrow> doc list \<Rightarrow> nat \<times> doc list" where
  "update_first oid patch [] = (0, [])"
| "update_first oid patch (d # ds) =
     (if has_id oid d then (1, set_fields patch d # ds)
      else (case update_first oid patch ds of (n, ds') \<Rightarrow> (n, d # ds')))"

fun delete_first :: "string \<Rightarrow> doc list \<Rightarrow> nat \<times> doc list" where
  "delete_first oid [] = (0, [])"
| "delete_first oid (d # ds) =
     (if has_id oid d then (1, ds)
      else (case delete_first oid ds of (n, ds') \<Rightarrow> (n, d # ds')))"

definition update_one :: "handle \<Rightarrow> string \<Rightarrow> doc \<Rightarrow> exc + nat \<times> store" where
  "update_one h oid patch =
     (case h of
        (s, name) \<Rightarrow>
          (case update_first oid patch (coll_docs s name) of
             (matched_count, ds') \<Rightarrow>
               reach s
                 (matched_count,
                  if matched_count = 0 then s
                  else s\<lparr>colls := AList.update name ds' (colls s)\<rparr>)))"

definition delete_one :: "handle \<Rightarrow> string \<Rightarrow> exc + nat \<times> store" where
  "delete_one h oid =
     (case h of
        (s, name) \<Rightarrow>
          (case delete_first oid (coll_docs s name) of
             (deleted_count, ds') \<Rightarrow>
               reach s
                 (deleted_count,
                  if deleted_count = 0 then s
                  else s\<lparr>colls := AList.update name ds' (colls s)\<rparr>)))"

definition list_collection_names :: "store \<Rightarrow> exc + string list" where
  "list_collection_names s = reach s (map fst (colls s))"

section \<open>Access to a collection\<close>

text \<open>
  \<open>ensure_db\<close> raises when the process has no store, with status code 500 and the detail
  below; otherwise \<open>collection\<close> goes on with the store it found.
\<close>

definition db_unavailable :: exc where
  "db_unavailable =
     HTTPException 500 ''Database not available. Configure DATABASE_URL and DATABASE_NAME.''"

definition ensure_db :: "store option \<Rightarrow> exc + store" where
  "ensure_db db = (case db of None \<Rightarrow> Inl db_unavailable | Some s \<Rightarrow> Inr s)"

text \<open>
  In the words of the specification this condition is \<open>ServiceUnavailable\<close>, and every error
  of its taxonomy reaches the caller as the corresponding HTTP status (section 7): for
  \<open>ServiceUnavailable\<close> that is 503. The constant below is the specification's status, kept
  apart from the one \<open>ensure_db\<close> raises, to compare the two.
\<close>

definition spec_ServiceUnavailable :: nat where
  "spec_ServiceUnavailable = 503"

definition collection :: "store option \<Rightarrow> string \<Rightarrow> exc + handle" where
  "collection db name = (case ensure_db db of Inl e \<Rightarrow> Inl e | Inr s \<Rightarrow> Inr (s, name))"

section \<open>Handlers\<close>

text \<open>
  A handler takes the store handle \<open>db\<close> of the process and what the request carries, and
  gives the exception it raises or its response; a handler that writes also gives the
  store it leaves. The clock reading and the identifier the store assigns to an inserted
  document are arguments. In \<open>update\<close> and \<open>delete\<close> the collection is looked up first, then
  the identifier is parsed, then the store is called, which is Python's evaluation order.
  \<open>if limit:\<close> holds for a limit that is present and not 0.
\<close>

subsection \<open>Projects\<close>

definition list_projects :: "store option \<Rightarrow> int option \<Rightarrow> exc + doc list" where
  "list_projects db limit =
     (case collection db ''project'' of
        Inl e \<Rightarrow> Inl e
      | Inr h \<Rightarrow>
          (let cur = sort_cursor ''created_at'' DESCENDING (find_all h);
               cur' = (case limit of
                         None \<Rightarrow> cur
                       | Some n \<Rightarrow> if n \<noteq> 0 then limit_cursor n cur else cur)
           in (case fetch cur' of
                 Inl e \<Rightarrow> Inl e
               | Inr ds \<Rightarrow> Inr (map serialize_doc ds))))"

definition get_project_by_slug :: "store option \<Rightarrow> string \<Rightarrow> exc + doc" where
  "get_project_by_slug db slug =
     (case collection db ''project'' of
        Inl e \<Rightarrow> Inl e
      | Inr h \<Rightarrow>
          (case find_one h ''slug'' (VStr slug) of
             Inl e \<Rightarrow> Inl e
           | Inr None \<Rightarrow> Inl (HTTPException 404 ''Project not found'')
           | Inr (Some d) \<Rightarrow>
               if d = [] then Inl (HTTPException 404 ''Project not found'')
               else Inr (serialize_doc d)))"

definition create_project :: "store option \<Rightarrow> Project \<Rightarrow> int \<Rightarrow> string \<Rightarrow> exc + doc \<times> store" where
  "create_project db data now new_id =
     (let d = project_dump data;
          d1 = AList.update ''created_at'' (VDatetime now) d;
          d2 = AList.update ''updated_at'' (VDatetime now) d1
      in (case collection db ''project'' of
            Inl e \<Rightarrow> Inl e
          | Inr h \<Rightarrow>
              (case insert_one h d2 new_id of
                 Inl e \<Rightarrow> Inl e
               | Inr (inserted_id, s') \<Rightarrow>
                   Inr ([(''id'', py_str (VObjectId inserted_id))], s'))))"

definition update_project :: "store option \<Rightarrow> string \<Rightarrow> Project \<Rightarrow> int \<Rightarrow> exc + doc \<times> store" where
  "update_project db id' data now =
     (case collection db ''project'' of
        Inl e \<Rightarrow> Inl e
      | Inr h \<Rightarrow>
          (case ObjectId id' of
             Inl e \<Rightarrow> Inl e
           | Inr oid \<Rightarrow>
               (case update_one h oid
                       (AList.update ''updated_at'' (VDatetime now) (project_dump data)) of
                  Inl e \<Rightarrow> Inl e
                | Inr (matched_count, s') \<Rightarrow>
                    if matched_count = 0 then Inl (HTTPException 404 ''Not found'')
                    else Inr ([(''ok'', VBool True)], s'))))"

definition delete_project :: "store option \<Rightarrow> string \<Rightarrow> exc + doc \<times> store" where
  "delete_project db id' =
     (case collection db ''project'' of
        Inl e \<Rightarrow> Inl e
      | Inr h \<Rightarrow>
          (case ObjectId id' of
             Inl e \<Rightarrow> Inl e
           | Inr oid \<Rightarrow>
               (case delete_one h oid of
                  Inl e \<Rightarrow> Inl e
                | Inr (deleted_count, s') \<Rightarrow>
                    if deleted_count = 0 then Inl (HTTPException 404 ''Not found'')
                    else Inr ([(''ok'', VBool True)], s'))))"

subsection \<open>Blog\<close>

definition list_blog :: "store option \<Rightarrow> int option \<Rightarrow> exc + doc list" where
  "list_blog db limit =
     (case collection db ''blogpost'' of
        Inl e \<Rightarrow> Inl e
      | Inr h \<Rightarrow>
          (let cur = sort_cursor ''created_at'' DESCENDING (find_all h);
               cur' = (case limit of
                         None \<Rightarrow> cur
                       | Some n \<Rightarrow> if n \<noteq> 0 then limit_cursor n cur else cur)
           in (case fetch cur' of
                 Inl e \<Rightarrow> Inl e
               | Inr ds \<Rightarrow> Inr (map serialize_doc ds))))"

definition get_post_by_slug :: "store option \<Rightarrow> string \<Rightarrow> exc + doc" where
  "get_post_by_slug db slug =
     (case collection db ''blogpost'' of
        Inl e \<Rightarrow> Inl e
      | Inr h \<Rightarrow>
          (case find_one h ''slug'' (VStr slug) of
             Inl e \<Rightarrow> Inl e
           | Inr None \<Rightarrow> Inl (HTTPException 404 ''Post not found'')
           | Inr (Some d) \<Rightarrow>
               if d = [] then Inl (HTTPException 404 ''Post not found'')
               else Inr (serialize_doc d)))"

definition create_post :: "store option \<Rightarrow> BlogPost \<Rightarrow> int \<Rightarrow> string \<Rightarrow> exc + doc \<times> store" where
  "create_post db data now new_id =
     (let d = blogpost_dump data;
          d1 = AList.update ''created_at'' (VDatetime now) d;
          d2 = AList.update ''updated_at'' (VDatetime now) d1
      in (case collection db ''blogpost'' of
            Inl e \<Rightarrow> Inl e
          | Inr h \<Rightarrow>
              (case insert_one h d2 new_id of
                 Inl e \<Rightarrow> Inl e
               | Inr (inserted_id, s') \<Rightarrow>
                   Inr ([(''id'', py_str (VObjectId inserted_id))], s'))))"

definition update_post :: "store option \<Rightarrow> string \<Rightarrow> BlogPost \<Rightarrow> int \<Rightarrow> exc + doc \<times> store" where
  "update_post db id' data now =
     (case collection db ''blogpost'' of
        Inl e \<Rightarrow> Inl e
      | Inr h \<Rightarrow>
          (case ObjectId id' of
             Inl e \<Rightarrow> Inl e
           | Inr oid \<Rightarrow>
               (case update_one h oid
                       (AList.update ''updated_at'' (VDatetime now) (blogpost_dump data)) of
                  Inl e \<Rightarrow> Inl e
                | Inr (matched_count, s') \<Rightarrow>
                    if matched_count = 0 then Inl (HTTPException 404 ''Not found'')
                    else Inr ([(''ok'', VBool True)], s'))))"

definition delete_post :: "store option \<Rightarrow> string \<Rightarrow> exc + doc \<times> store" where
  "delete_post db id' =
     (case collection db ''blogpost'' of
        Inl e \<Rightarrow> Inl e
      | Inr h \<Rightarrow>
          (case ObjectId id' of
             Inl e \<Rightarrow> Inl e
           | Inr oid \<Rightarrow>
               (case delete_one h oid of
                  Inl e \<Rightarrow> Inl e
                | Inr (deleted_count, s') \<Rightarrow>
                    if deleted_count = 0 then Inl (HTTPException 404 ''Not found'')
                    else Inr ([(''ok'', VBool True)], s'))))"

subsection \<open>Tech stack\<close>

definition list_tech :: "store option \<Rightarrow> exc + doc list" where
  "list_tech db =
     (case collection db ''techitem'' of
        Inl e \<Rightarrow> Inl e
      | Inr h \<Rightarrow>
          (case fetch (sort_cursor ''name'' ASCENDING (find_all h)) of
             Inl e \<Rightarrow> Inl e
           | Inr ds \<Rightarrow> Inr (map serialize_doc ds)))"

definition create_tech :: "store option \<Rightarrow> TechItem \<Rightarrow> int \<Rightarrow> string \<Rightarrow> exc + doc \<times> store" where
  "create_tech db data now new_id =
     (let d = techitem_dump data;
          d1 = AList.update ''created_at'' (VDatetime now) d;
          d2 = AList.update ''updated_at'' (VDatetime now) d1
      in (case collection db ''techitem'' of
            Inl e \<Rightarrow> Inl e
          | Inr h \<Rightarrow>
              (case insert_one h d2 new_id of
                 Inl e \<Rightarrow> Inl e
               | Inr (inserted_id, s') \<Rightarrow>
                   Inr ([(''id'', py_str (VObjectId inserted_id))], s'))))"

definition update_tech :: "store option \<Rightarrow> string \<Rightarrow> TechItem \<Rightarrow> int \<Rightarrow> exc + doc \<times> store" where
  "update_tech db id' data now =
     (case collection db ''techitem'' of
        Inl e \<Rightarrow> Inl e
      | Inr h \<Rightarrow>
          (case ObjectId id' of
             Inl e \<Rightarrow> Inl e
           | Inr oid \<Rightarrow>
               (case update_one h oid
                       (AList.update ''updated_at'' (VDatetime now) (techitem_dump data)) of
                  Inl e \<Rightarrow> Inl e
                | Inr (matched_count, s') \<Rightarrow>
                    if matched_count = 0 then Inl (HTTPException 404 ''Not found'')
                    else Inr ([(''ok'', VBool True)], s'))))"

definition delete_tech :: "store option \<Rightarrow> string \<Rightarrow> exc + doc \<times> store" where
  "delete_tech db id' =
     (case collection db ''techitem'' of
        Inl e \<Rightarrow> Inl e
      | Inr h \<Rightarrow>
          (case ObjectId id' of
             Inl e \<Rightarrow> Inl e
           | Inr oid \<Rightarrow>
               (case delete_one h oid of
                  Inl e \<Rightarrow> Inl e
                | Inr (deleted_count, s') \<Rightarrow>
                    if deleted_count = 0 then Inl (HTTPException 404 ''Not found'')
                    else Inr ([(''ok'', VBool True)], s'))))"

subsection \<open>Home and status\<close>

record home_response =
  projects :: "doc list"
  posts :: "doc list"
  tech :: "doc list"

definition home_data :: "store option \<Rightarrow> exc + home_response" where
  "home_data db =
     (case collection db ''project'' of
        Inl e \<Rightarrow> Inl e
      | Inr hp \<Rightarrow>
     (case fetch (limit_cursor 6 (sort_cursor ''created_at'' DESCENDING (find_all hp))) of
        Inl e \<Rightarrow> Inl e
      | Inr ps \<Rightarrow>
     (case collection db ''blogpost'' of
        Inl e \<Rightarrow> Inl e
      | Inr hb \<Rightarrow>
     (case fetch (limit_cursor 3 (sort_cursor ''created_at'' DESCENDING (find_all hb))) of
        Inl e \<Rightarrow> Inl e
      | Inr bs \<Rightarrow>
     (case collection db ''techitem'' of
        Inl e \<Rightarrow> Inl e
      | Inr ht \<Rightarrow>
     (case fetch (sort_cursor ''name'' ASCENDING (find_all ht)) of
        Inl e \<Rightarrow> Inl e
      | Inr ts \<Rightarrow>
          Inr \<lparr>projects = map serialize_doc ps,
               posts = map serialize_doc bs,
               tech = map serialize_doc ts\<rparr>))))))"

text \<open>
  The status texts of \<open>/test\<close> begin with a pictograph, written here as its UTF-8 bytes.
  The body of the \<open>try\<close> is \<open>test_database_try\<close>: it gives the final status object, or
  the exception raised together with the object as written so far. The handler catches
  every exception.
\<close>

definition check_mark :: string where
  "check_mark = [CHR 0xE2, CHR 0x9C, CHR 0x85]"

definition cross_mark :: string where
  "cross_mark = [CHR 0xE2, CHR 0x9D, CHR 0x8C]"

definition warning_sign :: string where
  "warning_sign = [CHR 0xE2, CHR 0x9A, CHR 0xA0,
                   CHR 0xEF, CHR 0xB8, CHR 0x8F]"

definition status_obj0 :: doc where
  "status_obj0 =
     [(''backend'', VStr (check_mark @ '' Running'')),
      (''database'', VStr (cross_mark @ '' Not Available'')),
      (''connection_status'', VStr ''Not Connected'')]"

definition test_database_try :: "store option \<Rightarrow> doc \<Rightarrow> exc \<times> doc + doc" where
  "test_database_try db status_obj =
     (case db of
        Some s \<Rightarrow>
          (let o1 = AList.update ''database'' (VStr (check_mark @ '' Available'')) status_obj;
               o2 = AList.update ''connection_status'' (VStr ''Connected'') o1
           in (case list_collection_names s of
                 Inl e \<Rightarrow> Inl (e, o2)
               | Inr names \<Rightarrow> Inr (AList.update ''collections'' (VStrList names) o2)))
      | None \<Rightarrow>
          Inr (AList.update ''database'' (VStr (warning_sign @ '' Not configured'')) status_obj))"

definition test_database :: "store option \<Rightarrow> exc + doc" where
  "test_database db =
     (case test_database_try db status_obj0 of
        Inr obj \<Rightarrow> Inr obj
      | Inl (e, obj) \<Rightarrow>
          Inr (AList.update ''database'' (VStr (''Error: '' @ take 80 (exc_str e))) obj))"

section \<open>Example data\<close>

text \<open>
  A project body as a client sends it, with no timestamps; the document the store holds for
  it after a create at time 100; and three stores: an empty one, one holding that document,
  and one that cannot be reached.
\<close>

definition example_id :: string where
  "example_id = ''65a1b2c3d4e5f60718293a4b''"

definition example_project :: Project where
  "example_project =
     \<lparr>p_title = ''X'', p_slug = ''x'', p_summary = ''s'', p_description = None, p_tech = [],
      p_role = None, p_timeline = None, p_logo_url = None, p_demo_url = None,
      p_repo_url = None, p_tags = [], p_featured = False,
      p_created_at = None, p_updated_at = None\<rparr>"

definition example_doc :: "pyvalue \<Rightarrow> pyvalue \<Rightarrow> doc" where
  "example_doc created updated =
     [(''title'', VStr ''X''), (''slug'', VStr ''x''), (''summary'', VStr ''s''),
      (''description'', VNone), (''tech'', VStrList []), (''role'', VNone),
      (''timeline'', VNone), (''logo_url'', VNone), (''demo_url'', VNone),
      (''repo_url'', VNone), (''tags'', VStrList []), (''featured'', VBool False),
      (''created_at'', created), (''updated_at'', updated),
      (''_id'', VObjectId example_id)]"

definition empty_store :: store where
  "empty_store = \<lparr>colls = [], conn_error = None\<rparr>"

definition example_store :: store where
  "example_store =
     \<lparr>colls = [(''project'', [example_doc (VDatetime 100) (VDatetime 100)])],
      conn_error = None\<rparr>"

definition broken_store :: store where
  "broken_store = \<lparr>colls = [], conn_error = Some (replicate 100 (CHR ''x''))\<rparr>"

section \<open>Auxiliary facts\<close>

lemma coll_docs_update [simp]:
  "coll_docs (s\<lparr>colls := AList.update name ds (colls s)\<rparr>) name = ds"
  by (simp add: coll_docs_def update_conv')

lemma fetch_reachable:
  "conn_error s = None \<Longrightarrow>
   fetch \<lparr>cur_handle = (s, name), cur_sort = sp, cur_limit = n\<rparr>
     = Inr (limit_docs n (sort_docs sp (coll_docs s name)))"
  by (simp add: fetch_def reach_def)

lemma mset_sort_docs [simp]: "mset (sort_docs sp ds) = mset ds"
  by (cases sp) (auto simp: sort_docs_def split: direction.splits)

lemma sort_docs_descending:
  "sorted_wrt (\<lambda>a b. b \<le> a) (map (field_key f) (sort_docs (Some (f, DESCENDING)) ds))"
  by (simp add: sort_docs_def rev_map [symmetric] sorted_wrt_rev)

lemma sort_docs_ascending:
  "sorted (map (field_key f) (sort_docs (Some (f, ASCENDING)) ds))"
  by (simp add: sort_docs_def)

lemma ObjectId_example: "ObjectId example_id = Inr example_id"
  by (simp add: ObjectId_def ObjectId_is_valid_def example_id_def is_hex_def hex_lower_def)

lemma create_project_example:
  "create_project (Some empty_store) example_project 100 example_id
     = Inr ([(''id'', VStr example_id)], example_store)"
  by (simp add: create_project_def collection_def ensure_db_def insert_one_def reach_def
      empty_store_def example_store_def example_doc_def example_project_def project_dump_def
      coll_docs_def AList.update.simps)

section \<open>Tokens and login\<close>

text \<open>
  What \<open>require_admin\<close> answers, case by case. A token that is not well formed, one signed
  with another key, and one whose expiry is not a number are refused with 401; one that has
  expired is refused with 401 and its own detail; of the others, the one with the role
  \<open>admin\<close> is accepted and every other is refused with 401.
\<close>

lemma require_admin_outcomes:
  "require_admin key now tok =
     (case tok of
        Garbage g \<Rightarrow> Inl (HTTPException 401 ''Invalid token'')
      | JWT p k \<Rightarrow>
          if k \<noteq> key then Inl (HTTPException 401 ''Invalid token'')
          else (case map_of p ''exp'' of
                  None \<Rightarrow>
                    if map_of p ''role'' = Some (VStr ''admin'') then Inr p
                    else Inl (HTTPException 401 ''Invalid token'')
                | Some (VInt e) \<Rightarrow>
                    if e \<le> now then Inl (HTTPException 401 ''Token expired'')
                    else if map_of p ''role'' = Some (VStr ''admin'') then Inr p
                    else Inl (HTTPException 401 ''Invalid token'')
                | Some other \<Rightarrow> Inl (HTTPException 401 ''Invalid token'')))"
  by (auto simp: require_admin_def require_admin_try_def
      split: token.splits option.splits pyvalue.splits)

lemma require_admin_failure_is_401:
  "require_admin key now tok = Inl e \<Longrightarrow> response_status e = 401"
  by (auto simp: require_admin_def split: sum.splits exc.splits)

text \<open>
  C4. A token with a good signature that has not expired and whose role is \<open>editor\<close>: the
  403 raised for it inside the \<open>try\<close> is caught by the handler for every exception, and what
  leaves \<open>require_admin\<close> is the 401 for an invalid token.
\<close>

theorem require_admin_wrong_role_is_401:
  "require_admin ''supersecret'' 1000
     (JWT [(''role'', VStr ''editor''), (''exp'', VInt 2000)] ''supersecret'')
   = Inl (HTTPException 401 ''Invalid token'')"
  by (simp add: require_admin_def require_admin_try_def)

text \<open>
  C5. A login with a password other than the configured one fails with status 401. A login
  with the configured password returns a token signed with the server's key whose payload
  has the role \<open>admin\<close> and an expiry eight hours (8 * 3600 seconds) after the clock
  reading, and nothing else, with the token type \<open>bearer\<close>.
\<close>

theorem login_issues_admin_token:
  "login pw key now password =
     (if password \<noteq> pw then Inl (HTTPException 401 ''Invalid credentials'')
      else Inr \<lparr>access_token =
                  JWT [(''role'', VStr ''admin''), (''exp'', VInt (now + 8 * 3600))] key,
               token_type = ''bearer''\<rparr>)"
  by (simp add: login_def create_token_def jwt_encode_def timedelta_minutes_def
      TOKEN_EXPIRE_MINUTES_def)

text \<open>
  The token of a login is accepted by \<open>require_admin\<close> until its expiry and refused as
  expired from then on.
\<close>

lemma login_token_lifetime:
  "login pw key now pw = Inr r \<Longrightarrow>
   require_admin key t (access_token r) =
     (if now + 8 * 3600 \<le> t then Inl (HTTPException 401 ''Token expired'')
      else Inr [(''role'', VStr ''admin''), (''exp'', VInt (now + 8 * 3600))])"
  by (auto simp: login_def create_token_def jwt_encode_def timedelta_minutes_def
      TOKEN_EXPIRE_MINUTES_def require_admin_outcomes)

section \<open>A process without a store\<close>

text \<open>
  C3, as the code has it. When no store was configured, every access to a collection fails
  with the exception of \<open>ensure_db\<close>, an \<open>HTTPException\<close> with status code 500 and the detail
  that the database is not available, and so does every handler of a data route, whatever
  the request. The status is not the 404 of a document that was not found.
\<close>

theorem store_missing_fails_every_handler:
  "collection None name = Inl db_unavailable \<and>
   list_projects None limit = Inl db_unavailable \<and>
   get_project_by_slug None slug = Inl db_unavailable \<and>
   create_project None pdata now new_id = Inl db_unavailable \<and>
   update_project None id' pdata now = Inl db_unavailable \<and>
   delete_project None id' = Inl db_unavailable \<and>
   list_blog None limit = Inl db_unavailable \<and>
   get_post_by_slug None slug = Inl db_unavailable \<and>
   create_post None bdata now new_id = Inl db_unavailable \<and>
   update_post None id' bdata now = Inl db_unavailable \<and>
   delete_post None id' = Inl db_unavailable \<and>
   list_tech None = Inl db_unavailable \<and>
   create_tech None tdata now new_id = Inl db_unavailable \<and>
   update_tech None id' tdata now = Inl db_unavailable \<and>
   delete_tech None id' = Inl db_unavailable \<and>
   home_data None = Inl db_unavailable \<and>
   db_unavailable =
     HTTPException 500 ''Database not available. Configure DATABASE_URL and DATABASE_NAME.'' \<and>
   response_status db_unavailable = 500 \<and>
   response_status db_unavailable \<noteq> 404"
  by (simp add: collection_def ensure_db_def list_projects_def get_project_by_slug_def
      create_project_def update_project_def delete_project_def list_blog_def
      get_post_by_slug_def create_post_def update_post_def delete_post_def list_tech_def
      create_tech_def update_tech_def delete_tech_def home_data_def db_unavailable_def)

text \<open>
  C3, as the specification words it, fails: a list of the projects of a process without a
  store is answered with status 500, which is not the 503 of \<open>ServiceUnavailable\<close>.
\<close>

theorem store_missing_is_not_service_unavailable:
  "list_projects None None = Inl db_unavailable \<and>
   response_status db_unavailable = 500 \<and>
   response_status db_unavailable \<noteq> spec_ServiceUnavailable"
  by (simp add: list_projects_def collection_def ensure_db_def db_unavailable_def
      spec_ServiceUnavailable_def)

text \<open>
  The caller cannot tell the missing store from an exception nobody caught by the status:
  both are answered with 500.
\<close>

lemma store_missing_status_is_internal_error:
  "response_status db_unavailable = response_status (InvalidId x) \<and>
   response_status db_unavailable = response_status (ConnectionFailure msg)"
  by (simp add: db_unavailable_def)

section \<open>Identifiers that do not parse\<close>

text \<open>
  An identifier that is not 24 hexadecimal digits makes \<open>ObjectId\<close> raise \<open>InvalidId\<close> in
  every update and delete handler; nothing catches it, so the caller gets status 500. The
  validator \<open>PyObjectId.validate\<close> refuses the same strings, but no handler calls it.
\<close>

lemma invalid_id_propagates:
  assumes "\<not> ObjectId_is_valid i"
  shows "update_project (Some s) i pdata now = Inl (InvalidId (i @ '' is not a valid ObjectId''))"
    and "delete_project (Some s) i = Inl (InvalidId (i @ '' is not a valid ObjectId''))"
    and "update_post (Some s) i bdata now = Inl (InvalidId (i @ '' is not a valid ObjectId''))"
    and "delete_post (Some s) i = Inl (InvalidId (i @ '' is not a valid ObjectId''))"
    and "update_tech (Some s) i tdata now = Inl (InvalidId (i @ '' is not a valid ObjectId''))"
    and "delete_tech (Some s) i = Inl (InvalidId (i @ '' is not a valid ObjectId''))"
  using assms
  by (simp_all add: update_project_def delete_project_def update_post_def delete_post_def
      update_tech_def delete_tech_def collection_def ensure_db_def ObjectId_def)

lemma PyObjectId_validate_refuses:
  "\<not> ObjectId_is_valid i \<Longrightarrow> PyObjectId_validate i = Inl (ValueError ''Invalid ObjectId'')"
  by (simp add: PyObjectId_validate_def)

text \<open>
  C2. An update and a delete of a project with the identifier \<open>not-an-id\<close>: both raise
  \<open>InvalidId\<close>, which the caller sees as status 500, not as a validation error.
\<close>

theorem invalid_id_is_internal_error:
  "update_project (Some example_store) ''not-an-id'' example_project 200
     = Inl (InvalidId ''not-an-id is not a valid ObjectId'') \<and>
   delete_project (Some example_store) ''not-an-id''
     = Inl (InvalidId ''not-an-id is not a valid ObjectId'') \<and>
   response_status (InvalidId ''not-an-id is not a valid ObjectId'') = 500"
  by (simp add: update_project_def delete_project_def collection_def ensure_db_def
      ObjectId_def ObjectId_is_valid_def)

section \<open>Timestamps\<close>

text \<open>
  The patch of an update holds every field of the body, the creation time among them. After
  the patch is applied the document's \<open>created_at\<close> is the body's (null when the body has
  none), whatever was stored; its \<open>updated_at\<close> is the clock reading.
\<close>

lemma update_patch_project:
  "map_of (set_fields (AList.update ''updated_at'' (VDatetime now) (project_dump data)) d)
       ''created_at'' = Some (opt_datetime (p_created_at data)) \<and>
   map_of (set_fields (AList.update ''updated_at'' (VDatetime now) (project_dump data)) d)
       ''updated_at'' = Some (VDatetime now)"
  by (simp add: set_fields_def project_dump_def AList.update.simps update_conv')

lemma update_patch_blogpost:
  "map_of (set_fields (AList.update ''updated_at'' (VDatetime now) (blogpost_dump data)) d)
       ''created_at'' = Some (opt_datetime (b_created_at data)) \<and>
   map_of (set_fields (AList.update ''updated_at'' (VDatetime now) (blogpost_dump data)) d)
       ''updated_at'' = Some (VDatetime now)"
  by (simp add: set_fields_def blogpost_dump_def AList.update.simps update_conv')

lemma update_patch_techitem:
  "map_of (set_fields (AList.update ''updated_at'' (VDatetime now) (techitem_dump data)) d)
       ''created_at'' = Some (opt_datetime (t_created_at data)) \<and>
   map_of (set_fields (AList.update ''updated_at'' (VDatetime now) (techitem_dump data)) d)
       ''updated_at'' = Some (VDatetime now)"
  by (simp add: set_fields_def techitem_dump_def AList.update.simps update_conv')

text \<open>
  C1. The project created at time 100 is updated at time 200 with the same body, which has
  no timestamps. The update succeeds; the stored document then has \<open>updated_at\<close> 200 and a
  null \<open>created_at\<close>: the creation time 100 is lost.
\<close>

theorem update_project_overwrites_created_at:
  "update_project (Some example_store) example_id example_project 200 =
     Inr ([(''ok'', VBool True)],
          \<lparr>colls = [(''project'', [example_doc VNone (VDatetime 200)])],
           conn_error = None\<rparr>)"
  by (simp add: update_project_def collection_def ensure_db_def ObjectId_example
      update_one_def reach_def example_store_def example_doc_def example_project_def
      project_dump_def coll_docs_def has_id_def set_fields_def AList.update.simps)

text \<open>
  C8. On a store that can be reached, each of the three create handlers returns the
  identifier the store assigned and appends one document that carries this identifier and
  whose \<open>created_at\<close> and \<open>updated_at\<close> are both the clock reading. The timestamps of the
  request body play no part: a body with other timestamps gives the same result.
\<close>

theorem create_stamps_server_time:
  assumes "conn_error s = None"
  shows "(\<exists>s' d. create_project (Some s) pdata now new_id = Inr ([(''id'', VStr new_id)], s') \<and>
            coll_docs s' ''project'' = coll_docs s ''project'' @ [d] \<and>
            map_of d ''_id'' = Some (VObjectId new_id) \<and>
            map_of d ''created_at'' = Some (VDatetime now) \<and>
            map_of d ''updated_at'' = Some (VDatetime now)) \<and>
         (\<exists>s' d. create_post (Some s) bdata now new_id = Inr ([(''id'', VStr new_id)], s') \<and>
            coll_docs s' ''blogpost'' = coll_docs s ''blogpost'' @ [d] \<and>
            map_of d ''_id'' = Some (VObjectId new_id) \<and>
            map_of d ''created_at'' = Some (VDatetime now) \<and>
            map_of d ''updated_at'' = Some (VDatetime now)) \<and>
         (\<exists>s' d. create_tech (Some s) tdata now new_id = Inr ([(''id'', VStr new_id)], s') \<and>
            coll_docs s' ''techitem'' = coll_docs s ''techitem'' @ [d] \<and>
            map_of d ''_id'' = Some (VObjectId new_id) \<and>
            map_of d ''created_at'' = Some (VDatetime now) \<and>
            map_of d ''updated_at'' = Some (VDatetime now)) \<and>
         create_project db (pdata\<lparr>p_created_at := c, p_updated_at := u\<rparr>) now new_id
           = create_project db pdata now new_id \<and>
         create_post db (bdata\<lparr>b_created_at := c, b_updated_at := u\<rparr>) now new_id
           = create_post db bdata now new_id \<and>
         create_tech db (tdata\<lparr>t_created_at := c, t_updated_at := u\<rparr>) now new_id
           = create_tech db tdata now new_id"
proof -
  have p: "\<exists>s' d. create_project (Some s) pdata now new_id = Inr ([(''id'', VStr new_id)], s') \<and>
            coll_docs s' ''project'' = coll_docs s ''project'' @ [d] \<and>
            map_of d ''_id'' = Some (VObjectId new_id) \<and>
            map_of d ''created_at'' = Some (VDatetime now) \<and>
            map_of d ''updated_at'' = Some (VDatetime now)"
    using assms
    by (simp add: create_project_def collection_def ensure_db_def insert_one_def reach_def
        update_conv' Let_def)
  have b: "\<exists>s' d. create_post (Some s) bdata now new_id = Inr ([(''id'', VStr new_id)], s') \<and>
            coll_docs s' ''blogpost'' = coll_docs s ''blogpost'' @ [d] \<and>
            map_of d ''_id'' = Some (VObjectId new_id) \<and>
            map_of d ''created_at'' = Some (VDatetime now) \<and>
            map_of d ''updated_at'' = Some (VDatetime now)"
    using assms
    by (simp add: create_post_def collection_def ensure_db_def insert_one_def reach_def
        update_conv' Let_def)
  have t: "\<exists>s' d. create_tech (Some s) tdata now new_id = Inr ([(''id'', VStr new_id)], s') \<and>
            coll_docs s' ''techitem'' = coll_docs s ''techitem'' @ [d] \<and>
            map_of d ''_id'' = Some (VObjectId new_id) \<and>
            map_of d ''created_at'' = Some (VDatetime now) \<and>
            map_of d ''updated_at'' = Some (VDatetime now)"
    using assms
    by (simp add: create_tech_def collection_def ensure_db_def insert_one_def reach_def
        update_conv' Let_def)
  have ip: "create_project db (pdata\<lparr>p_created_at := c, p_updated_at := u\<rparr>) now new_id
           = create_project db pdata now new_id"
    by (simp add: create_project_def project_dump_def AList.update.simps
        cong del: sum.case_cong_weak)
  have ib: "create_post db (bdata\<lparr>b_created_at := c, b_updated_at := u\<rparr>) now new_id
           = create_post db bdata now new_id"
    by (simp add: create_post_def blogpost_dump_def AList.update.simps
        cong del: sum.case_cong_weak)
  have it: "create_tech db (tdata\<lparr>t_created_at := c, t_updated_at := u\<rparr>) now new_id
           = create_tech db tdata now new_id"
    by (simp add: create_tech_def techitem_dump_def AList.update.simps
        cong del: sum.case_cong_weak)
  from p b t ip ib it show ?thesis by blast
qed

theorem create_stamps_server_time_witness:
  "conn_error empty_store = None \<and>
   (\<exists>s' d. create_project (Some empty_store) example_project 100 example_id
              = Inr ([(''id'', VStr example_id)], s') \<and>
      coll_docs s' ''project'' = coll_docs empty_store ''project'' @ [d] \<and>
      map_of d ''_id'' = Some (VObjectId example_id) \<and>
      map_of d ''created_at'' = Some (VDatetime 100) \<and>
      map_of d ''updated_at'' = Some (VDatetime 100)) \<and>
   create_project (Some empty_store)
       (example_project\<lparr>p_created_at := Some 1, p_updated_at := Some 2\<rparr>) 100 example_id
     = create_project (Some empty_store) example_project 100 example_id"
proof -
  have h: "conn_error empty_store = None"
    by (simp add: empty_store_def)
  from create_stamps_server_time
         [OF h, where pdata = example_project and now = 100 and new_id = example_id
            and db = "Some empty_store" and c = "Some 1" and u = "Some 2"]
       h
  show ?thesis by blast
qed

text \<open>
  C10. Whenever a create of any of the three entities succeeds, the document it appended
  has equal \<open>created_at\<close> and \<open>updated_at\<close>, both the one clock reading of the handler.
\<close>

theorem create_stamps_equal:
  "(create_project (Some s) pdata now new_id = Inr (resp, s') \<longrightarrow>
      (\<exists>d. coll_docs s' ''project'' = coll_docs s ''project'' @ [d] \<and>
         map_of d ''created_at'' = map_of d ''updated_at'' \<and>
         map_of d ''updated_at'' = Some (VDatetime now))) \<and>
   (create_post (Some s) bdata now new_id = Inr (resp, s') \<longrightarrow>
      (\<exists>d. coll_docs s' ''blogpost'' = coll_docs s ''blogpost'' @ [d] \<and>
         map_of d ''created_at'' = map_of d ''updated_at'' \<and>
         map_of d ''updated_at'' = Some (VDatetime now))) \<and>
   (create_tech (Some s) tdata now new_id = Inr (resp, s') \<longrightarrow>
      (\<exists>d. coll_docs s' ''techitem'' = coll_docs s ''techitem'' @ [d] \<and>
         map_of d ''created_at'' = map_of d ''updated_at'' \<and>
         map_of d ''updated_at'' = Some (VDatetime now)))"
  by (auto simp: create_project_def create_post_def create_tech_def collection_def
      ensure_db_def insert_one_def reach_def update_conv' Let_def split: option.splits)

theorem create_stamps_equal_witness:
  "create_project (Some empty_store) example_project 100 example_id
     = Inr ([(''id'', VStr example_id)], example_store) \<and>
   (\<exists>d. coll_docs example_store ''project'' = coll_docs empty_store ''project'' @ [d] \<and>
      map_of d ''created_at'' = map_of d ''updated_at'' \<and>
      map_of d ''updated_at'' = Some (VDatetime 100))"
proof -
  note run = create_project_example
  from create_stamps_equal
         [where s = empty_store and pdata = example_project and now = 100
            and new_id = example_id and resp = "[(''id'', VStr example_id)]"
            and s' = example_store]
       run
  show ?thesis by blast
qed

section \<open>Lists and the home page\<close>

text \<open>
  C9. A list of projects or of blog posts with the limit 0 is the list with no limit. On a
  store that can be reached it holds every document of the collection, each serialized.
\<close>

theorem list_limit_zero_returns_all:
  "list_projects db (Some 0) = list_projects db None \<and>
   list_blog db (Some 0) = list_blog db None \<and>
   (conn_error s = None \<longrightarrow>
      (\<exists>ps bs. list_projects (Some s) (Some 0) = Inr (map serialize_doc ps) \<and>
          mset ps = mset (coll_docs s ''project'') \<and>
          list_blog (Some s) (Some 0) = Inr (map serialize_doc bs) \<and>
          mset bs = mset (coll_docs s ''blogpost'')))"
proof -
  have a: "list_projects db (Some 0) = list_projects db None"
    by (simp add: list_projects_def cong del: sum.case_cong_weak)
  have b: "list_blog db (Some 0) = list_blog db None"
    by (simp add: list_blog_def cong del: sum.case_cong_weak)
  have c: "conn_error s = None \<longrightarrow>
      (\<exists>ps bs. list_projects (Some s) (Some 0) = Inr (map serialize_doc ps) \<and>
          mset ps = mset (coll_docs s ''project'') \<and>
          list_blog (Some s) (Some 0) = Inr (map serialize_doc bs) \<and>
          mset bs = mset (coll_docs s ''blogpost''))"
  proof
    assume r: "conn_error s = None"
    let ?ps = "sort_docs (Some (''created_at'', DESCENDING)) (coll_docs s ''project'')"
    let ?bs = "sort_docs (Some (''created_at'', DESCENDING)) (coll_docs s ''blogpost'')"
    have "list_projects (Some s) (Some 0) = Inr (map serialize_doc ?ps)"
      using r
      by (simp add: list_projects_def collection_def ensure_db_def find_all_def
          sort_cursor_def fetch_reachable limit_docs_def)
    moreover have "list_blog (Some s) (Some 0) = Inr (map serialize_doc ?bs)"
      using r
      by (simp add: list_blog_def collection_def ensure_db_def find_all_def
          sort_cursor_def fetch_reachable limit_docs_def)
    moreover have "mset ?ps = mset (coll_docs s ''project'')" by simp
    moreover have "mset ?bs = mset (coll_docs s ''blogpost'')" by simp
    ultimately show "\<exists>ps bs. list_projects (Some s) (Some 0) = Inr (map serialize_doc ps) \<and>
          mset ps = mset (coll_docs s ''project'') \<and>
          list_blog (Some s) (Some 0) = Inr (map serialize_doc bs) \<and>
          mset bs = mset (coll_docs s ''blogpost'')" by blast
  qed
  from a b c show ?thesis by blast
qed

theorem list_limit_zero_returns_all_witness:
  "conn_error example_store = None \<and>
   list_projects (Some example_store) (Some 0) = list_projects (Some example_store) None \<and>
   (\<exists>ps. list_projects (Some example_store) (Some 0) = Inr (map serialize_doc ps) \<and>
      mset ps = mset (coll_docs example_store ''project'') \<and> length ps = 1)"
proof -
  have h: "conn_error example_store = None"
    by (simp add: example_store_def)
  have n: "length (coll_docs example_store ''project'') = 1"
    by (simp add: example_store_def coll_docs_def)
  from list_limit_zero_returns_all [where db = "Some example_store" and s = example_store] h
  obtain ps where
    z: "list_projects (Some example_store) (Some 0) = list_projects (Some example_store) None"
    and r: "list_projects (Some example_store) (Some 0) = Inr (map serialize_doc ps)"
    and m: "mset ps = mset (coll_docs example_store ''project'')"
    by blast
  from m have "length ps = length (coll_docs example_store ''project'')"
    by (rule mset_eq_length)
  with n have "length ps = 1" by simp
  with h z r m show ?thesis by blast
qed

text \<open>
  C6. On a store that can be reached, the home page holds: the first six of the projects
  sorted by \<open>created_at\<close>, greatest first, so at most six; the first three of the blog posts
  sorted the same way, so at most three; and all tech items sorted by \<open>name\<close>, least first.
  Each is serialized. This holds for collections of any size.
\<close>

theorem home_data_limits_and_order:
  assumes "conn_error s = None"
  shows "\<exists>r pall ball ts.
     home_data (Some s) = Inr r \<and>
     projects r = map serialize_doc (take 6 pall) \<and> length (projects r) \<le> 6 \<and>
     mset pall = mset (coll_docs s ''project'') \<and>
     sorted_wrt (\<lambda>a b. b \<le> a) (map (field_key ''created_at'') pall) \<and>
     posts r = map serialize_doc (take 3 ball) \<and> length (posts r) \<le> 3 \<and>
     mset ball = mset (coll_docs s ''blogpost'') \<and>
     sorted_wrt (\<lambda>a b. b \<le> a) (map (field_key ''created_at'') ball) \<and>
     tech r = map serialize_doc ts \<and>
     mset ts = mset (coll_docs s ''techitem'') \<and>
     sorted (map (field_key ''name'') ts)"
proof -
  let ?pall = "sort_docs (Some (''created_at'', DESCENDING)) (coll_docs s ''project'')"
  let ?ball = "sort_docs (Some (''created_at'', DESCENDING)) (coll_docs s ''blogpost'')"
  let ?ts = "sort_docs (Some (''name'', ASCENDING)) (coll_docs s ''techitem'')"
  let ?r = "\<lparr>projects = map serialize_doc (take 6 ?pall),
            posts = map serialize_doc (take 3 ?ball),
            tech = map serialize_doc ?ts\<rparr>"
  have run: "home_data (Some s) = Inr ?r"
    using assms
    by (simp add: home_data_def collection_def ensure_db_def find_all_def sort_cursor_def
        limit_cursor_def fetch_reachable limit_docs_def)
  have "projects ?r = map serialize_doc (take 6 ?pall)" by simp
  moreover have "length (projects ?r) \<le> 6" by simp
  moreover have "mset ?pall = mset (coll_docs s ''project'')" by simp
  moreover have "sorted_wrt (\<lambda>a b. b \<le> a) (map (field_key ''created_at'') ?pall)"
    by (rule sort_docs_descending)
  moreover have "posts ?r = map serialize_doc (take 3 ?ball)" by simp
  moreover have "length (posts ?r) \<le> 3" by simp
  moreover have "mset ?ball = mset (coll_docs s ''blogpost'')" by simp
  moreover have "sorted_wrt (\<lambda>a b. b \<le> a) (map (field_key ''created_at'') ?ball)"
    by (rule sort_docs_descending)
  moreover have "tech ?r = map serialize_doc ?ts" by simp
  moreover have "mset ?ts = mset (coll_docs s ''techitem'')" by simp
  moreover have "sorted (map (field_key ''name'') ?ts)"
    by (rule sort_docs_ascending)
  ultimately show ?thesis using run by blast
qed

theorem home_data_limits_and_order_witness:
  "conn_error example_store = None \<and>
   (\<exists>r pall. home_data (Some example_store) = Inr r \<and>
      projects r = map serialize_doc (take 6 pall) \<and> length (projects r) \<le> 6 \<and>
      mset pall = mset (coll_docs example_store ''project'') \<and>
      sorted_wrt (\<lambda>a b. b \<le> a) (map (field_key ''created_at'') pall) \<and>
      length (posts r) \<le> 3)"
proof -
  have h: "conn_error example_store = None"
    by (simp add: example_store_def)
  from home_data_limits_and_order [OF h] h show ?thesis by blast
qed

section \<open>The status route\<close>

text \<open>
  C7. \<open>test_database\<close> returns a status object for every handle, configured or not, reachable
  or not. When the store cannot be reached, the object's \<open>database\<close> text is \<open>Error: \<close>
  followed by the first 80 characters of the failure's message, so by at most 80.
\<close>

theorem test_database_never_raises:
  "(\<exists>obj. test_database db = Inr obj) \<and>
   (conn_error s = Some msg \<longrightarrow>
      (\<exists>obj err. test_database (Some s) = Inr obj \<and>
         map_of obj ''database'' = Some (VStr (''Error: '' @ err)) \<and>
         err = take 80 msg \<and> length err \<le> 80))"
  by (auto simp: test_database_def test_database_try_def list_collection_names_def reach_def
      update_conv' Let_def split: option.splits sum.splits)

theorem test_database_never_raises_witness:
  "conn_error broken_store = Some (replicate 100 (CHR ''x'')) \<and>
   (\<exists>obj err. test_database (Some broken_store) = Inr obj \<and>
      map_of obj ''database'' = Some (VStr (''Error: '' @ err)) \<and>
      err = replicate 80 (CHR ''x'') \<and> length err \<le> 80)"
proof -
  have h: "conn_error broken_store = Some (replicate 100 (CHR ''x''))"
    by (simp add: broken_store_def)
  have t: "take 80 (replicate 100 (CHR ''x'')) = replicate 80 (CHR ''x'')"
    by simp
  from test_database_never_raises
         [where db = "Some broken_store" and s = broken_store
            and msg = "replicate 100 (CHR ''x'')"]
       h t
  show ?thesis by auto
qed

end
